theory Spec2Isabelle
  imports Main "HOL-Library.Char_ord" "HOL-Library.List_Lexorder"
begin

section \<open>Common values\<close>

text \<open>
  An ObjectId is modelled by a natural number, and a collection is the list of its
  documents in natural order. Two ids are equal exactly when their 24-digit hexadecimal
  forms are, which is what \<open>equals\<close> and the \<open>includes\<close> of a Mongoose array decide.
\<close>

type_synonym oid = nat

text \<open>
  Failures. \<open>AppError message statusCode\<close> is the class thrown by the controllers.
  \<open>ValidationError\<close> is what \<open>save\<close> rejects with when schema validators fail; it
  carries the message of every failing path, in the order of the schema.
  \<open>CastError\<close> is what \<open>findById\<close> rejects with for a value that is no ObjectId,
  \<open>DocumentNotFoundError\<close> what \<open>save\<close> rejects with when the document is no longer
  stored, \<open>MongoError\<close> a failure of the datastore itself, and \<open>TypeError\<close> the
  exception of the language.
\<close>

datatype error =
    AppError string nat
  | ValidationError "string list"
  | CastError string
  | DocumentNotFoundError
  | MongoError string
  | TypeError string

text \<open>
  \<open>req.params.id\<close>: a string that casts to an ObjectId, or one that does not.
\<close>

datatype id_param = ObjectId oid | NotObjectId string

text \<open>\<open>String.prototype.trim\<close>, on the white space of the Latin-1 range.\<close>

definition is_space :: "char \<Rightarrow> bool" where
  "is_space c = (c = CHR '' '' \<or> c = CHR 0x09 \<or> c = CHR 0x0A \<or> c = CHR 0x0B
                 \<or> c = CHR 0x0C \<or> c = CHR 0x0D \<or> c = CHR 0xA0)"

definition trim :: "string \<Rightarrow> string" where
  "trim s = rev (dropWhile is_space (rev (dropWhile is_space s)))"

text \<open>The test \<open>/^https?:\/\/.+/.test(v)\<close>; the dot matches no line terminator.\<close>

definition url_format :: "string \<Rightarrow> bool" where
  "url_format v =
     (let rest = (if take 8 v = ''https://'' then drop 8 v
                  else if take 7 v = ''http://'' then drop 7 v
                  else [])
      in case rest of [] \<Rightarrow> False | c # _ \<Rightarrow> c \<noteq> CHR 0x0A \<and> c \<noteq> CHR 0x0D)"

text \<open>
  \<open>[...new Set(xs)]\<close>: the elements of \<open>xs\<close> in the order of their first
  occurrence.
\<close>

fun set_spread :: "'a list \<Rightarrow> 'a list \<Rightarrow> 'a list" where
  "set_spread seen [] = []"
| "set_spread seen (x # xs) =
     (if x \<in> set seen then set_spread seen xs else x # set_spread (x # seen) xs)"

definition new_Set :: "'a list \<Rightarrow> 'a list" where
  "new_Set xs = set_spread [] xs"

text \<open>\<open>a || d\<close> on the result of \<open>parseInt\<close>: \<open>None\<close> stands for \<open>NaN\<close>.\<close>

definition or_default :: "int option \<Rightarrow> int \<Rightarrow> int" where
  "or_default a d = (case a of None \<Rightarrow> d | Some n \<Rightarrow> if n = 0 then d else n)"

text \<open>\<open>Math.ceil(a / b)\<close> for integers \<open>a\<close> and \<open>b \<noteq> 0\<close>.\<close>

definition ceil_div :: "int \<Rightarrow> int \<Rightarrow> int" where
  "ceil_div a b = - ((- a) div b)"

text \<open>Numbers in decimal and in hexadecimal digits.\<close>

fun dec :: "nat \<Rightarrow> string" where
  "dec n = (if n < 10 then [''0123456789'' ! n]
            else dec (n div 10) @ [''0123456789'' ! (n mod 10)])"

declare dec.simps [simp del]

definition show_int :: "int \<Rightarrow> string" where
  "show_int x = (if x < 0 then CHR ''-'' # dec (nat (- x)) else dec (nat x))"

definition hex_digit :: "nat \<Rightarrow> char" where
  "hex_digit d = ''0123456789abcdef'' ! d"

fun hex :: "nat \<Rightarrow> string" where
  "hex n = (if n < 16 then [hex_digit n] else hex (n div 16) @ [hex_digit (n mod 16)])"

declare hex.simps [simp del]

text \<open>\<open>toString()\<close> of an ObjectId: its 24 hexadecimal digits.\<close>

definition ObjectId_toString :: "oid \<Rightarrow> string" where
  "ObjectId_toString i = replicate (24 - length (hex i)) (CHR ''0'') @ hex i"

text \<open>
  \<open>toString()\<close> of a populated user document with the paths \<open>_id\<close> and
  \<open>username\<close>: the inspection of the document, which opens with a brace. Quotation
  marks and line breaks of the inspection are left out.
\<close>

definition Document_toString :: "oid \<Rightarrow> string \<Rightarrow> string" where
  "Document_toString i uname =
     ''{ _id: new ObjectId('' @ ObjectId_toString i @ ''), username: '' @ uname @ '' }''"

text \<open>
  \<open>x + 1\<close> on a Number that holds an integer. A Number is a double: between \<open>-2^53\<close>
  and \<open>2^53\<close> the sum is exact; beyond, the doubles are two or more apart and the sum is
  rounded to the nearest of them, to the one with the even significand when it lies
  halfway. Below \<open>2^54\<close> in absolute value the doubles are the even integers, so \<open>x + 1\<close>
  lies halfway between \<open>x\<close> and \<open>x + 2\<close>; from there on \<open>x\<close> is the nearest.
\<close>

definition Number_plus_one :: "int \<Rightarrow> int" where
  "Number_plus_one x =
     (if - 9007199254740992 \<le> x \<and> x < 9007199254740992 then x + 1
      else if x mod 4 = 2 \<and> \<bar>x\<bar> < 18014398509481984 then x + 2
      else x)"

section \<open>Documents\<close>

text \<open>
  The paths of \<open>musicTrackSchema\<close>, with \<open>_id\<close> and the \<open>createdAt\<close> timestamp.
  \<open>duration\<close> and \<open>playCount\<close> hold the integers among the Numbers; \<open>coverArt\<close> is
  \<open>None\<close> for \<open>null\<close>.
\<close>

record music_track =
  track_id :: oid
  title :: string
  artist :: string
  duration :: int
  fileUrl :: string
  coverArt :: "string option"
  genre :: "string option"
  tags :: "string list"
  playCount :: int
  track_isPublic :: bool
  track_owner :: oid
  track_createdAt :: int

text \<open>The paths of \<open>playlistSchema\<close>.\<close>

record playlist =
  playlist_id :: oid
  name :: string
  description :: "string option"
  coverImage :: "string option"
  tracks :: "oid list"
  playlist_owner :: oid
  playlist_isPublic :: bool
  followers :: "oid list"
  playlist_createdAt :: int

text \<open>
  The paths of \<open>userSchema\<close>. The schema declares no \<open>refreshToken\<close> path, and a
  strict schema stores no field it does not declare.
\<close>

record user =
  user_id :: oid
  username :: string
  email :: string
  password :: string

record db =
  MusicTrack :: "music_track list"
  Playlist :: "playlist list"
  User :: "user list"

section \<open>Track model\<close>

definition MusicTrack_findById :: "oid \<Rightarrow> music_track list \<Rightarrow> music_track option" where
  "MusicTrack_findById i ts = find (\<lambda>t. track_id t = i) ts"

text \<open>The write of \<open>save\<close>: the stored document with this \<open>_id\<close> is replaced.\<close>

fun track_write :: "music_track \<Rightarrow> music_track list \<Rightarrow> music_track list" where
  "track_write d [] = []"
| "track_write d (t # ts) =
     (if track_id t = track_id d then d # ts else t # track_write d ts)"

text \<open>
  The validators of \<open>musicTrackSchema\<close>: for each path, in the order of the schema, the
  message of its first failing validator. \<open>playCount\<close> declares \<open>min: 0\<close> with no
  message, so the message is the default one of Mongoose.
\<close>

definition track_validation_errors :: "music_track \<Rightarrow> string list" where
  "track_validation_errors t =
     (if title t = [] then [''Track title is required'']
      else if length (title t) > 100 then [''Track title cannot exceed 100 characters'']
      else [])
     @ (if artist t = [] then [''Artist name is required'']
        else if length (artist t) > 100 then [''Artist name cannot exceed 100 characters'']
        else [])
     @ (if duration t < 0 then [''Duration cannot be negative''] else [])
     @ (if fileUrl t = [] then [''Audio file URL is required'']
        else if \<not> url_format (fileUrl t) then [''Invalid file URL format'']
        else [])
     @ (case coverArt t of
          None \<Rightarrow> []
        | Some v \<Rightarrow> if \<not> url_format v then [''Invalid cover art URL format''] else [])
     @ (case genre t of
          None \<Rightarrow> []
        | Some g \<Rightarrow> if length g > 50 then [''Genre cannot exceed 50 characters''] else [])
     @ map (\<lambda>g. ''Tag cannot exceed 20 characters'') (filter (\<lambda>g. length g > 20) (tags t))
     @ (if playCount t < 0
        then [''Path `playCount` ('' @ show_int (playCount t)
                @ '') is less than minimum allowed value (0).'']
        else [])"

definition track_validate :: "music_track \<Rightarrow> error + unit" where
  "track_validate t =
     (case track_validation_errors t of [] \<Rightarrow> Inr () | e # es \<Rightarrow> Inl (ValidationError (e # es)))"

text \<open>The \<open>pre('save')\<close> middleware of the track schema.\<close>

definition track_pre_save :: "bool \<Rightarrow> music_track \<Rightarrow> music_track" where
  "track_pre_save tags_modified t =
     (if tags_modified
      then t\<lparr>tags := filter (\<lambda>tag. length (trim tag) > 0) (new_Set (tags t))\<rparr>
      else t)"

text \<open>
  \<open>save\<close> of a loaded track document: the validators run on the document first, then
  the middleware, then the write, which fails when the document is no longer stored. It
  yields the document as saved and the collection. \<open>tags_modified\<close> is
  \<open>this.isModified('tags')\<close>.
\<close>

definition track_save ::
  "bool \<Rightarrow> music_track \<Rightarrow> music_track list \<Rightarrow> error + (music_track \<times> music_track list)" where
  "track_save tags_modified t ts =
     (case track_validate t of
        Inl e \<Rightarrow> Inl e
      | Inr _ \<Rightarrow>
          (let t' = track_pre_save tags_modified t
           in if MusicTrack_findById (track_id t') ts = None then Inl DocumentNotFoundError
              else Inr (t', track_write t' ts)))"

text \<open>\<open>musicTrackSchema.methods.incrementPlayCount\<close>: \<open>this.playCount += 1\<close>, then \<open>save\<close>.\<close>

definition incrementPlayCount ::
  "music_track \<Rightarrow> music_track list \<Rightarrow> error + (music_track \<times> music_track list)" where
  "incrementPlayCount this ts =
     track_save False (this\<lparr>playCount := Number_plus_one (playCount this)\<rparr>) ts"

text \<open>\<open>deleteOne\<close> of a track document. The track schema registers no middleware for it.\<close>

definition track_deleteOne :: "music_track \<Rightarrow> music_track list \<Rightarrow> music_track list" where
  "track_deleteOne t ts = filter (\<lambda>d. track_id d \<noteq> track_id t) ts"

section \<open>Track controller\<close>

text \<open>
  Each handler takes the datastore, \<open>req.user\<close> reduced to its \<open>_id\<close> (\<open>None\<close> when
  the request carries no authenticated user) and the request parameters; it returns the
  error passed to \<open>next\<close>, or the response data with the datastore after the request.
  Where the id of the request is an \<open>oid\<close>, the handler is modelled from the point where
  the parameter has been cast.
\<close>

text \<open>
  \<open>populate('owner', 'username')\<close>: the owner id is replaced by the user document it
  resolves to, and by \<open>null\<close> when it resolves to none.
\<close>

definition populate_owner :: "user list \<Rightarrow> oid \<Rightarrow> user option" where
  "populate_owner us i = find (\<lambda>u. user_id u = i) us"

text \<open>
  \<open>TrackController.getOne\<close>. The track is loaded with its owner populated, so
  \<open>track.owner.toString()\<close> is called on the populated document, or on \<open>null\<close>, and is
  compared with the 24 digits of \<open>req.user._id\<close>. The answer is the track with its
  populated owner.
\<close>

definition TrackController_getOne ::
  "db \<Rightarrow> oid option \<Rightarrow> oid \<Rightarrow> error + (music_track \<times> user option)" where
  "TrackController_getOne s req_user i =
     (case MusicTrack_findById i (MusicTrack s) of
        None \<Rightarrow> Inl (AppError ''Track not found'' 404)
      | Some track \<Rightarrow>
          (let owner_doc = populate_owner (User s) (track_owner track)
           in if track_isPublic track then Inr (track, owner_doc)
              else (case req_user of
                      None \<Rightarrow> Inl (AppError ''Not authorized to access this track'' 403)
                    | Some v \<Rightarrow>
                        (case owner_doc of
                           None \<Rightarrow> Inl (TypeError ''Cannot read properties of null'')
                         | Some u \<Rightarrow>
                             if Document_toString (user_id u) (username u)
                                  \<noteq> ObjectId_toString v
                             then Inl (AppError ''Not authorized to access this track'' 403)
                             else Inr (track, owner_doc)))))"

definition TrackController_delete :: "db \<Rightarrow> oid \<Rightarrow> oid \<Rightarrow> error + db" where
  "TrackController_delete s req_user i =
     (case MusicTrack_findById i (MusicTrack s) of
        None \<Rightarrow> Inl (AppError ''Track not found'' 404)
      | Some track \<Rightarrow>
          if track_owner track \<noteq> req_user
          then Inl (AppError ''Not authorized to delete this track'' 403)
          else Inr (s\<lparr>MusicTrack := track_deleteOne track (MusicTrack s)\<rparr>))"

text \<open>
  \<open>TrackController.incrementPlayCount\<close>. The handler never reads \<open>req.user\<close>; it
  answers \<open>track.playCount\<close> of the document it saved.
\<close>

definition TrackController_incrementPlayCount ::
  "db \<Rightarrow> oid option \<Rightarrow> id_param \<Rightarrow> error + (db \<times> int)" where
  "TrackController_incrementPlayCount s req_user param =
     (case param of
        NotObjectId v \<Rightarrow> Inl (CastError ''Cast to ObjectId failed'')
      | ObjectId i \<Rightarrow>
          (case MusicTrack_findById i (MusicTrack s) of
             None \<Rightarrow> Inl (AppError ''Track not found'' 404)
           | Some track \<Rightarrow>
               (case incrementPlayCount track (MusicTrack s) of
                  Inl e \<Rightarrow> Inl e
                | Inr (track', ts) \<Rightarrow> Inr (s\<lparr>MusicTrack := ts\<rparr>, playCount track'))))"

text \<open>
  The route \<open>POST /:id/play\<close> of the track router. It is registered before
  \<open>router.use(protect)\<close>: the request reaches the handler whatever its
  \<open>Authorization\<close> header is, and nothing has set \<open>req.user\<close>.
\<close>

definition trackRoutes_play :: "db \<Rightarrow> string option \<Rightarrow> id_param \<Rightarrow> error + (db \<times> int)" where
  "trackRoutes_play s authorization param = TrackController_incrementPlayCount s None param"

text \<open>
  \<open>MusicTrackFilters\<close>, read from \<open>req.query\<close>. \<open>None\<close> is an absent key;
  \<open>f_isPublic\<close> and \<open>f_owner\<close> hold the values the query is cast to.
\<close>

datatype sort_field = SortCreatedAt | SortPlayCount | SortTitle

record MusicTrackFilters =
  f_search :: "string option"
  f_artist :: "string option"
  f_genre :: "string option"
  f_isPublic :: "bool option"
  f_owner :: "oid option"
  f_tags :: "string list option"
  f_sortBy :: "sort_field option"
  f_sortOrder :: "string option"

text \<open>A string of the query is truthy when it is present and not empty.\<close>

definition truthy :: "string option \<Rightarrow> bool" where
  "truthy v = (case v of None \<Rightarrow> False | Some x \<Rightarrow> x \<noteq> [])"

text \<open>
  The filter built by \<open>getAll\<close>, as a predicate on a track. The text index
  (\<open>text_search\<close>) and the case-insensitive regular expression (\<open>regex_i\<close>) are
  capabilities of the datastore and are parameters. Every clause is a top-level key of
  the filter, so the clauses are conjoined; \<open>$all\<close> with no element matches nothing.
  The last clause is \<open>$or: [{isPublic: true}, {owner: req.user?._id}]\<close>: without a user
  the second branch asks for a track with no owner, and every track has one.
\<close>

definition track_query ::
  "(string \<Rightarrow> music_track \<Rightarrow> bool) \<Rightarrow> (string \<Rightarrow> string \<Rightarrow> bool) \<Rightarrow>
   MusicTrackFilters \<Rightarrow> oid option \<Rightarrow> music_track \<Rightarrow> bool" where
  "track_query text_search regex_i filters req_user t =
     ((if truthy (f_search filters) then text_search (the (f_search filters)) t else True)
      \<and> (if truthy (f_artist filters) then regex_i (the (f_artist filters)) (artist t) else True)
      \<and> (if truthy (f_genre filters) then genre t = f_genre filters else True)
      \<and> (case f_isPublic filters of None \<Rightarrow> True | Some b \<Rightarrow> track_isPublic t = b)
      \<and> (case f_owner filters of None \<Rightarrow> True | Some u \<Rightarrow> track_owner t = u)
      \<and> (case f_tags filters of None \<Rightarrow> True
          | Some ts \<Rightarrow> ts \<noteq> [] \<and> list_all (\<lambda>x. x \<in> set (tags t)) ts)
      \<and> (track_isPublic t \<or> Some (track_owner t) = req_user))"

text \<open>
  \<open>.sort(...)\<close>: by the requested field, descending only for \<open>sortOrder === 'desc'\<close>,
  and by descending creation time when no field is requested.
\<close>

definition track_sort :: "MusicTrackFilters \<Rightarrow> music_track list \<Rightarrow> music_track list" where
  "track_sort filters ts =
     (case f_sortBy filters of
        None \<Rightarrow> rev (sort_key track_createdAt ts)
      | Some fld \<Rightarrow>
          (let asc = (case fld of
                        SortCreatedAt \<Rightarrow> sort_key track_createdAt ts
                      | SortPlayCount \<Rightarrow> sort_key playCount ts
                      | SortTitle \<Rightarrow> sort_key title ts)
           in if f_sortOrder filters = Some ''desc'' then rev asc else asc))"

text \<open>
  \<open>.skip(skip).limit(limit)\<close>: the datastore rejects a negative skip; a negative limit
  is read as its absolute value.
\<close>

definition skip_limit :: "int \<Rightarrow> int \<Rightarrow> 'a list \<Rightarrow> error + 'a list" where
  "skip_limit n m xs =
     (if n < 0 then Inl (MongoError ''Skip value must be non-negative'')
      else Inr (take (nat \<bar>m\<bar>) (drop (nat n) xs)))"

record pagination =
  page :: int
  limit :: int
  totalItems :: int
  totalPages :: int

text \<open>
  \<open>TrackController.getAll\<close>. \<open>q_page\<close> and \<open>q_limit\<close> are the values of
  \<open>parseInt(req.query.page)\<close> and \<open>parseInt(req.query.limit)\<close>.
\<close>

definition TrackController_getAll ::
  "(string \<Rightarrow> music_track \<Rightarrow> bool) \<Rightarrow> (string \<Rightarrow> string \<Rightarrow> bool) \<Rightarrow>
   db \<Rightarrow> oid option \<Rightarrow> int option \<Rightarrow> int option \<Rightarrow> MusicTrackFilters \<Rightarrow>
   error + (music_track list \<times> pagination)" where
  "TrackController_getAll text_search regex_i s req_user q_page q_limit filters =
     (let page_no = or_default q_page 1;
          page_size = or_default q_limit 10;
          skip = (page_no - 1) * page_size;
          matching = filter (track_query text_search regex_i filters req_user) (MusicTrack s);
          totalTracks = int (length matching)
      in case skip_limit skip page_size (track_sort filters matching) of
           Inl e \<Rightarrow> Inl e
         | Inr found \<Rightarrow>
             Inr (found, \<lparr>page = page_no, limit = page_size, totalItems = totalTracks,
                           totalPages = ceil_div totalTracks page_size\<rparr>))"

text \<open>
  The body of an update request, as the list of its keys in order, each with a value of
  the type of its path. \<open>P_other\<close> is a key that is no path of the track schema:
  assigning it stores nothing, and when the key is \<open>save\<close> the assignment replaces the
  method of that name on the document.
\<close>

datatype track_assignment =
    P_title string
  | P_artist string
  | P_duration int
  | P_fileUrl string
  | P_coverArt "string option"
  | P_genre string
  | P_tags "string list"
  | P_playCount int
  | P_isPublic bool
  | P_owner oid
  | P_other string

text \<open>One assignment of \<open>Object.assign(track, req.body)\<close>; the setters trim.\<close>

fun assign :: "music_track \<Rightarrow> track_assignment \<Rightarrow> music_track" where
  "assign t (P_title v) = t\<lparr>title := trim v\<rparr>"
| "assign t (P_artist v) = t\<lparr>artist := trim v\<rparr>"
| "assign t (P_duration v) = t\<lparr>duration := v\<rparr>"
| "assign t (P_fileUrl v) = t\<lparr>fileUrl := v\<rparr>"
| "assign t (P_coverArt v) = t\<lparr>coverArt := v\<rparr>"
| "assign t (P_genre v) = t\<lparr>genre := Some (trim v)\<rparr>"
| "assign t (P_tags v) = t\<lparr>tags := map trim v\<rparr>"
| "assign t (P_playCount v) = t\<lparr>playCount := v\<rparr>"
| "assign t (P_isPublic v) = t\<lparr>track_isPublic := v\<rparr>"
| "assign t (P_owner v) = t\<lparr>track_owner := v\<rparr>"
| "assign t (P_other k) = t"

definition Object_assign :: "music_track \<Rightarrow> track_assignment list \<Rightarrow> music_track" where
  "Object_assign t body = foldl assign t body"

definition assigns_tags :: "track_assignment \<Rightarrow> bool" where
  "assigns_tags a = (case a of P_tags _ \<Rightarrow> True | _ \<Rightarrow> False)"

text \<open>
  \<open>TrackController.update\<close>, behind \<open>protect\<close>, so \<open>req.user\<close> is present. The
  \<open>validateRequest\<close> of the route checks the keys it has a rule for (title, artist,
  duration, fileUrl, coverArt, genre, tags, isPublic) and removes no key from the body.
\<close>

definition TrackController_update ::
  "db \<Rightarrow> oid \<Rightarrow> oid \<Rightarrow> track_assignment list \<Rightarrow> error + (db \<times> music_track)" where
  "TrackController_update s req_user i body =
     (case MusicTrack_findById i (MusicTrack s) of
        None \<Rightarrow> Inl (AppError ''Track not found'' 404)
      | Some track \<Rightarrow>
          if track_owner track \<noteq> req_user
          then Inl (AppError ''Not authorized to update this track'' 403)
          else if list_ex (\<lambda>a. a = P_other ''save'') body
          then Inl (TypeError ''track.save is not a function'')
          else (case track_save (list_ex assigns_tags body) (Object_assign track body)
                       (MusicTrack s) of
                  Inl e \<Rightarrow> Inl e
                | Inr (track', ts) \<Rightarrow> Inr (s\<lparr>MusicTrack := ts\<rparr>, track')))"

section \<open>Playlist model\<close>

definition Playlist_findById :: "oid \<Rightarrow> playlist list \<Rightarrow> playlist option" where
  "Playlist_findById i ps = find (\<lambda>p. playlist_id p = i) ps"

fun playlist_write :: "playlist \<Rightarrow> playlist list \<Rightarrow> playlist list" where
  "playlist_write d [] = []"
| "playlist_write d (p # ps) =
     (if playlist_id p = playlist_id d then d # ps else p # playlist_write d ps)"

text \<open>
  The validators of \<open>playlistSchema\<close>: those of \<open>name\<close>, \<open>description\<close> and
  \<open>coverImage\<close>, and the validator of each element of \<open>tracks\<close>, which looks the id up
  in the track collection.
\<close>

definition playlist_field_errors :: "playlist \<Rightarrow> string list" where
  "playlist_field_errors p =
     (if name p = [] then [''Playlist name is required'']
      else if length (name p) > 100 then [''Playlist name cannot exceed 100 characters'']
      else [])
     @ (case description p of
          None \<Rightarrow> []
        | Some d \<Rightarrow> if length d > 500 then [''Description cannot exceed 500 characters'']
                    else [])
     @ (case coverImage p of
          None \<Rightarrow> []
        | Some v \<Rightarrow> if v \<noteq> [] \<and> \<not> url_format v then [''Invalid cover image URL format'']
                    else [])"

definition playlist_track_errors :: "music_track list \<Rightarrow> playlist \<Rightarrow> string list" where
  "playlist_track_errors ts p =
     map (\<lambda>trackId. ''Invalid track ID'')
       (filter (\<lambda>trackId. MusicTrack_findById trackId ts = None) (tracks p))"

definition playlist_validate :: "music_track list \<Rightarrow> playlist \<Rightarrow> error + unit" where
  "playlist_validate ts p =
     (case playlist_field_errors p @ playlist_track_errors ts p of
        [] \<Rightarrow> Inr ()
      | e # es \<Rightarrow> Inl (ValidationError (e # es)))"

text \<open>
  The \<open>pre('save')\<close> middleware of the playlist schema; \<open>tracks_modified\<close> is
  \<open>this.isModified('tracks')\<close>.
\<close>

definition playlist_pre_save :: "bool \<Rightarrow> playlist \<Rightarrow> playlist" where
  "playlist_pre_save tracks_modified p =
     (if tracks_modified then p\<lparr>tracks := new_Set (tracks p)\<rparr> else p)"

text \<open>
  \<open>save\<close> of a loaded playlist document: the validators, then the middleware, then the
  write, which fails when the document is no longer stored.
\<close>

definition playlist_save :: "bool \<Rightarrow> playlist \<Rightarrow> db \<Rightarrow> error + db" where
  "playlist_save tracks_modified p s =
     (case playlist_validate (MusicTrack s) p of
        Inl e \<Rightarrow> Inl e
      | Inr _ \<Rightarrow>
          if Playlist_findById (playlist_id p) (Playlist s) = None
          then Inl DocumentNotFoundError
          else Inr (s\<lparr>Playlist :=
                        playlist_write (playlist_pre_save tracks_modified p) (Playlist s)\<rparr>))"



definition removeTrack :: "playlist \<Rightarrow> oid \<Rightarrow> db \<Rightarrow> error + db" where
  "removeTrack this trackId s =
     playlist_save True (this\<lparr>tracks := filter (\<lambda>i. i \<noteq> trackId) (tracks this)\<rparr>) s"

definition addFollower :: "playlist \<Rightarrow> oid \<Rightarrow> db \<Rightarrow> error + db" where
  "addFollower this userId s =
     (if userId \<notin> set (followers this)
      then playlist_save False (this\<lparr>followers := followers this @ [userId]\<rparr>) s
      else Inr s)"

definition removeFollower :: "playlist \<Rightarrow> oid \<Rightarrow> db \<Rightarrow> error + db" where
  "removeFollower this userId s =
     playlist_save False (this\<lparr>followers := filter (\<lambda>i. i \<noteq> userId) (followers this)\<rparr>) s"

section \<open>Playlist controller\<close>







definition PlaylistController_removeTrack ::
  "db \<Rightarrow> oid \<Rightarrow> oid \<Rightarrow> oid \<Rightarrow> error + (db \<times> playlist option)" where
  "PlaylistController_removeTrack s req_user i trackId =
     (case Playlist_findById i (Playlist s) of
        None \<Rightarrow> Inl (AppError ''Playlist not found'' 404)
      | Some p \<Rightarrow>
          if playlist_owner p \<noteq> req_user
          then Inl (AppError ''Not authorized to modify this playlist'' 403)
          else (case removeTrack p trackId s of
                  Inl e \<Rightarrow> Inl e
                | Inr s' \<Rightarrow> Inr (s', Playlist_findById (playlist_id p) (Playlist s'))))"

record follow_state =
  isFollowing :: bool
  followersCount :: nat

definition PlaylistController_toggleFollow ::
  "db \<Rightarrow> oid \<Rightarrow> oid \<Rightarrow> error + (db \<times> follow_state)" where
  "PlaylistController_toggleFollow s req_user i =
     (case Playlist_findById i (Playlist s) of
        None \<Rightarrow> Inl (AppError ''Playlist not found'' 404)
      | Some p \<Rightarrow>
          (let userId = req_user;
               following = (userId \<in> set (followers p))
           in case (if following then removeFollower p userId s else addFollower p userId s) of
                Inl e \<Rightarrow> Inl e
              | Inr s' \<Rightarrow>
                  Inr (s', \<lparr>isFollowing = \<not> following,
                            followersCount =
                              (case Playlist_findById (playlist_id p) (Playlist s') of
                                 None \<Rightarrow> 0
                               | Some updatedPlaylist \<Rightarrow> length (followers updatedPlaylist))\<rparr>)))"



section \<open>Refreshing tokens\<close>

text \<open>
  \<open>User.findOne({ refreshToken })\<close>. The filter names a path the user schema does not
  declare. With \<open>strictQuery\<close> set, as \<open>connectDatabase\<close> sets it, such a key is
  removed from the filter and the empty filter matches the first user; without it the key
  stays and matches a stored field of that name, which no user document has.
\<close>

definition User_findOne_refreshToken :: "bool \<Rightarrow> string \<Rightarrow> user list \<Rightarrow> user option" where
  "User_findOne_refreshToken strictQuery refreshToken us =
     (if strictQuery then (case us of [] \<Rightarrow> None | u # _ \<Rightarrow> Some u) else None)"

record token_pair =
  accessToken :: string
  refreshToken :: string

text \<open>
  \<open>AuthController.refreshToken\<close>. The two signing methods are parameters: they take the
  time of the call and the user, and write nothing to the user document, so the
  \<open>save\<close> that follows them has no modified path and leaves the datastore as it is.
\<close>

definition AuthController_refreshToken ::
  "bool \<Rightarrow> (nat \<Rightarrow> user \<Rightarrow> string) \<Rightarrow> (nat \<Rightarrow> user \<Rightarrow> string) \<Rightarrow>
   nat \<Rightarrow> db \<Rightarrow> string option \<Rightarrow> error + (db \<times> token_pair)" where
  "AuthController_refreshToken strictQuery generateAuthToken generateRefreshToken now s body_token =
     (if \<not> truthy body_token then Inl (AppError ''Refresh token is required'' 400)
      else (case User_findOne_refreshToken strictQuery (the body_token) (User s) of
              None \<Rightarrow> Inl (AppError ''Invalid refresh token'' 401)
            | Some u \<Rightarrow>
                Inr (s, \<lparr>accessToken = generateAuthToken now u,
                         refreshToken = generateRefreshToken now u\<rparr>)))"

section \<open>Concurrent play requests\<close>

text \<open>
  A request to \<open>POST /:id/play\<close> runs in two steps, one at each \<open>await\<close> that reaches
  the datastore: \<open>findById\<close> loads the document, then \<open>incrementPlayCount\<close> adds one to
  the loaded copy and saves it. Between the two, other requests may take steps.
\<close>

datatype play_request =
    Pending oid
  | Loaded music_track
  | Responded "error + int"

definition play_step :: "play_request \<Rightarrow> db \<Rightarrow> play_request \<times> db" where
  "play_step r s =
     (case r of
        Pending i \<Rightarrow>
          (case MusicTrack_findById i (MusicTrack s) of
             None \<Rightarrow> (Responded (Inl (AppError ''Track not found'' 404)), s)
           | Some track \<Rightarrow> (Loaded track, s))
      | Loaded track \<Rightarrow>
          (case incrementPlayCount track (MusicTrack s) of
             Inl e \<Rightarrow> (Responded (Inl e), s)
           | Inr (track', ts) \<Rightarrow> (Responded (Inr (playCount track')), s\<lparr>MusicTrack := ts\<rparr>))
      | Responded a \<Rightarrow> (Responded a, s))"

text \<open>A schedule names, step by step, the request that moves next.\<close>

fun run_schedule :: "nat list \<Rightarrow> play_request list \<times> db \<Rightarrow> play_request list \<times> db" where
  "run_schedule [] c = c"
| "run_schedule (k # sched) (rs, s) =
     (if k < length rs
      then (case play_step (rs ! k) s of (r', s') \<Rightarrow> run_schedule sched (rs[k := r'], s'))
      else run_schedule sched (rs, s))"

section \<open>Fixtures\<close>

text \<open>
  The documents the helpers of the test suite create: \<open>createTestUser\<close>,
  \<open>createTestTrack\<close> and \<open>createTestPlaylist\<close> with their default fields; the
  arguments are the \<open>_id\<close> given to the document and the overrides the tests pass.
\<close>

definition createTestUser :: "oid \<Rightarrow> string \<Rightarrow> string \<Rightarrow> user" where
  "createTestUser i uname mail =
     \<lparr>user_id = i, username = uname, email = mail, password = ''Password123!''\<rparr>"

definition createTestTrack :: "oid \<Rightarrow> oid \<Rightarrow> bool \<Rightarrow> music_track" where
  "createTestTrack i owner_id public =
     \<lparr>track_id = i, title = ''Test Track'', artist = ''Test Artist'', duration = 180,
      fileUrl = ''https://example.com/track.mp3'', coverArt = None, genre = Some ''Rock'',
      tags = [], playCount = 0, track_isPublic = public, track_owner = owner_id,
      track_createdAt = int i\<rparr>"

definition createTestPlaylist :: "oid \<Rightarrow> oid \<Rightarrow> bool \<Rightarrow> oid list \<Rightarrow> playlist" where
  "createTestPlaylist i owner_id public track_ids =
     \<lparr>playlist_id = i, name = ''Test Playlist'',
      description = Some ''Test playlist description'', coverImage = None,
      tracks = track_ids, playlist_owner = owner_id, playlist_isPublic = public,
      followers = [], playlist_createdAt = int i\<rparr>"

text \<open>
  Two users, \<open>testuser\<close> (1) and \<open>otheruser\<close> (2); a public track (10) and a private
  track (11) of user 1; two public playlists (20, 21) of user 1 that hold track 10 and a
  private playlist (22) of user 1.
\<close>

definition test_db :: db where
  "test_db =
     \<lparr>MusicTrack = [createTestTrack 10 1 True, createTestTrack 11 1 False],
      Playlist = [createTestPlaylist 20 1 True [10], createTestPlaylist 21 1 True [10],
                  createTestPlaylist 22 1 False []],
      User = [createTestUser 1 ''testuser'' ''test@example.com'',
              createTestUser 2 ''otheruser'' ''other@example.com'']\<rparr>"

text \<open>No filter of \<open>getAll\<close> is set.\<close>

definition no_filters :: MusicTrackFilters where
  "no_filters =
     \<lparr>f_search = None, f_artist = None, f_genre = None, f_isPublic = None, f_owner = None,
      f_tags = None, f_sortBy = None, f_sortOrder = None\<rparr>"

text \<open>The query \<open>?isPublic=false\<close> and nothing else.\<close>

definition only_private :: MusicTrackFilters where
  "only_private = no_filters\<lparr>f_isPublic := Some False\<rparr>"


text \<open>
  The fixtures after user 1 has sent \<open>PUT /api/v1/tracks/10\<close> with the body
  \<open>{playCount: 9007199254740992}\<close>, which is \<open>2^53\<close>.
\<close>

definition saturated_db :: db where
  "saturated_db =
     test_db\<lparr>MusicTrack := [(createTestTrack 10 1 True)\<lparr>playCount := 9007199254740992\<rparr>,
                             createTestTrack 11 1 False]\<rparr>"






section \<open>Lemmas on the collections\<close>

lemmas fixture_defs = test_db_def createTestTrack_def createTestPlaylist_def createTestUser_def

lemma track_write_find:
  "MusicTrack_findById (track_id d) ts \<noteq> None \<Longrightarrow>
   MusicTrack_findById (track_id d) (track_write d ts) = Some d"
  by (induction ts) (auto simp: MusicTrack_findById_def)

lemma MusicTrack_findById_id: "MusicTrack_findById i ts = Some t \<Longrightarrow> track_id t = i"
  by (induction ts) (auto simp: MusicTrack_findById_def split: if_splits)

lemma MusicTrack_findById_mem: "MusicTrack_findById i ts = Some t \<Longrightarrow> t \<in> set ts"
  by (induction ts) (auto simp: MusicTrack_findById_def split: if_splits)





text \<open>The spread of a \<open>Set\<close> has the elements of the list, each once.\<close>

lemma set_set_spread: "set (set_spread seen xs) = set xs - set seen"
  by (induction xs arbitrary: seen) auto



lemma set_new_Set: "set (new_Set xs) = set xs"
  by (simp add: new_Set_def set_set_spread)



lemma new_Set_single: "new_Set [x] = [x]"
  by (simp add: new_Set_def)


section \<open>Lemmas on the printed forms\<close>

lemma hex_digit_range: "d < 16 \<Longrightarrow> hex_digit d \<in> set ''0123456789abcdef''"
  unfolding hex_digit_def by (rule nth_mem) simp

lemma set_hex: "set (hex n) \<subseteq> set ''0123456789abcdef''"
proof (induction n rule: hex.induct)
  case (1 n)
  show ?case
  proof (cases "n < 16")
    case True
    then show ?thesis using hex_digit_range[of n] by (subst hex.simps) simp
  next
    case False
    have "hex_digit (n mod 16) \<in> set ''0123456789abcdef''"
      by (rule hex_digit_range) simp
    with False 1 show ?thesis by (subst hex.simps) simp
  qed
qed

lemma brace_not_in_ObjectId: "CHR ''{'' \<notin> set (ObjectId_toString i)"
  using set_hex[of i] by (auto simp: ObjectId_toString_def)

text \<open>The inspection of a document is never the 24 digits of an id.\<close>

lemma Document_toString_neq: "Document_toString i uname \<noteq> ObjectId_toString v"
proof
  assume "Document_toString i uname = ObjectId_toString v"
  then have "CHR ''{'' \<in> set (ObjectId_toString v)"
    by (metis Document_toString_def append_Cons list.set_intros(1))
  then show False using brace_not_in_ObjectId by blast
qed

section \<open>Lemmas on validation\<close>

lemma track_validate_iff: "track_validate t = Inr () \<longleftrightarrow> track_validation_errors t = []"
  by (simp add: track_validate_def split: list.splits)

text \<open>The validators of a track pass exactly when each path is within its bounds.\<close>

lemma track_validation_errors_iff:
  "track_validation_errors t = [] \<longleftrightarrow>
     title t \<noteq> [] \<and> length (title t) \<le> 100
     \<and> artist t \<noteq> [] \<and> length (artist t) \<le> 100
     \<and> 0 \<le> duration t
     \<and> url_format (fileUrl t)
     \<and> (case coverArt t of None \<Rightarrow> True | Some v \<Rightarrow> url_format v)
     \<and> (case genre t of None \<Rightarrow> True | Some g \<Rightarrow> length g \<le> 50)
     \<and> list_all (\<lambda>g. length g \<le> 20) (tags t)
     \<and> 0 \<le> playCount t"
  by (auto simp: track_validation_errors_def filter_empty_conv list_all_iff url_format_def
        split: option.splits)

lemma track_validation_errors_playCount:
  "track_validation_errors t = [] \<Longrightarrow> 0 \<le> c \<Longrightarrow>
   track_validation_errors (t\<lparr>playCount := c\<rparr>) = []"
  by (simp add: track_validation_errors_iff)

lemma Number_plus_one_exact:
  "0 \<le> x \<Longrightarrow> x < 9007199254740992 \<Longrightarrow> Number_plus_one x = x + 1"
  by (simp add: Number_plus_one_def)

lemma Number_plus_one_nonneg: "0 \<le> x \<Longrightarrow> 0 \<le> Number_plus_one x"
  by (simp add: Number_plus_one_def)

lemma track_validation_errors_nonneg: "track_validation_errors t = [] \<Longrightarrow> 0 \<le> playCount t"
  by (simp add: track_validation_errors_iff)

text \<open>What \<open>save\<close> has written passes the validators again.\<close>

lemma track_save_valid:
  assumes "track_save m t ts = Inr (t', ts')"
  shows "track_validate t' = Inr ()"
proof -
  from assms have v: "track_validation_errors t = []" and t': "t' = track_pre_save m t"
    by (auto simp: track_save_def track_validate_iff[symmetric] Let_def
          split: sum.splits if_splits)
  from v have "list_all (\<lambda>g. length g \<le> 20) (tags t)"
    by (simp add: track_validation_errors_iff)
  then have "list_all (\<lambda>g. length g \<le> 20) (filter P (new_Set (tags t)))" for P
    by (auto simp: list_all_iff set_new_Set)
  with v t' have "track_validation_errors t' = []"
    by (simp add: track_pre_save_def track_validation_errors_iff)
  then show ?thesis by (simp add: track_validate_iff)
qed

lemma incrementPlayCount_valid:
  assumes "track_validate t = Inr ()" and "MusicTrack_findById (track_id t) ts \<noteq> None"
  shows "incrementPlayCount t ts =
         Inr (t\<lparr>playCount := Number_plus_one (playCount t)\<rparr>,
              track_write (t\<lparr>playCount := Number_plus_one (playCount t)\<rparr>) ts)"
proof -
  from assms(1) have e: "track_validation_errors t = []" by (simp add: track_validate_iff)
  then have "0 \<le> Number_plus_one (playCount t)"
    by (intro Number_plus_one_nonneg track_validation_errors_nonneg)
  with e have "track_validate (t\<lparr>playCount := Number_plus_one (playCount t)\<rparr>) = Inr ()"
    by (simp add: track_validate_iff track_validation_errors_playCount)
  with assms(2) show ?thesis
    by (simp add: incrementPlayCount_def track_save_def track_pre_save_def Let_def)
qed



lemma playlist_field_errors_tracks [simp]:
  "playlist_field_errors (p\<lparr>tracks := xs\<rparr>) = playlist_field_errors p"
  by (simp add: playlist_field_errors_def)

lemma playlist_field_errors_followers [simp]:
  "playlist_field_errors (p\<lparr>followers := xs\<rparr>) = playlist_field_errors p"
  by (simp add: playlist_field_errors_def)

lemma test_track_valid: "track_validate (createTestTrack i u b) = Inr ()"
  by (simp add: track_validate_def track_validation_errors_def createTestTrack_def url_format_def)

section \<open>Lemmas on the stored playlists\<close>















section \<open>Lemmas on listing\<close>

lemma set_track_sort: "set (track_sort filters ts) = set ts"
  by (simp add: track_sort_def Let_def split: option.splits sort_field.splits)

lemma skip_limit_subset: "skip_limit n m xs = Inr ys \<Longrightarrow> set ys \<subseteq> set xs"
  by (auto simp: skip_limit_def split: if_splits dest: in_set_takeD in_set_dropD)

lemma getAll_found:
  assumes "TrackController_getAll text_search regex_i s viewer q_page q_limit filters
             = Inr (found, pg)"
    and "t \<in> set found"
  shows "t \<in> set (MusicTrack s) \<and> track_query text_search regex_i filters viewer t"
proof -
  let ?m = "filter (track_query text_search regex_i filters viewer) (MusicTrack s)"
  from assms(1) obtain n m where "skip_limit n m (track_sort filters ?m) = Inr found"
    by (auto simp: TrackController_getAll_def Let_def split: sum.splits)
  then have "set found \<subseteq> set (track_sort filters ?m)" by (rule skip_limit_subset)
  with assms(2) have "t \<in> set ?m" by (auto simp: set_track_sort)
  then show ?thesis by simp
qed

text \<open>
  Whatever the filters, the page and the limit, a private track in the answer of the
  track list is owned by the viewer.
\<close>

lemma getAll_private_owned:
  assumes "TrackController_getAll text_search regex_i s viewer q_page q_limit filters
             = Inr (found, pg)"
    and "t \<in> set found" and "\<not> track_isPublic t"
  shows "viewer = Some (track_owner t)"
  using getAll_found[OF assms(1,2)] assms(3) by (auto simp: track_query_def)

text \<open>
  At the fixtures, asking the list for private tracks only: user 1 gets the private
  track 11, user 2 gets nothing.
\<close>

lemma getAll_only_private:
  "TrackController_getAll (\<lambda>_ _. True) (\<lambda>_ _. True) test_db (Some 1) None None only_private
     = Inr ([createTestTrack 11 1 False],
            \<lparr>page = 1, limit = 10, totalItems = 1, totalPages = 1\<rparr>)
   \<and> TrackController_getAll (\<lambda>_ _. True) (\<lambda>_ _. True) test_db (Some 2) None None only_private
     = Inr ([], \<lparr>page = 1, limit = 10, totalItems = 0, totalPages = 0\<rparr>)"
  by (simp add: TrackController_getAll_def only_private_def no_filters_def or_default_def
        track_query_def truthy_def test_db_def createTestTrack_def skip_limit_def
        track_sort_def ceil_div_def)

section \<open>Lemmas on the handlers\<close>

text \<open>
  A private track is refused with 403 to the anonymous viewer, and to every authenticated
  viewer when its owner resolves to a user: to the owner as well, since the inspection of
  the populated owner is never the viewer's id.
\<close>

lemma getOne_private_refused:
  assumes "MusicTrack_findById i (MusicTrack s) = Some t" and "\<not> track_isPublic t"
    and "viewer = None \<or> populate_owner (User s) (track_owner t) \<noteq> None"
  shows "TrackController_getOne s viewer i
           = Inl (AppError ''Not authorized to access this track'' 403)"
  using assms
  by (auto simp: TrackController_getOne_def Let_def Document_toString_neq
        split: option.splits)

lemma getOne_refuses_owner:
  "TrackController_getOne test_db (Some 1) 11
     = Inl (AppError ''Not authorized to access this track'' 403)"
  by (rule getOne_private_refused[where t = "createTestTrack 11 1 False"])
     (simp_all add: MusicTrack_findById_def populate_owner_def fixture_defs)

text \<open>Deleting a track writes to the track collection only.\<close>

lemma TrackController_delete_Playlist:
  "TrackController_delete s u i = Inr s' \<Longrightarrow> Playlist s' = Playlist s"
  by (auto simp: TrackController_delete_def split: option.splits if_splits)

text \<open>
  The two steps of a play request, taken with no other request in between, are the
  handler.
\<close>

lemma play_steps_are_request:
  assumes "play_step (Pending i) s = (r, s1)" and "play_step r s1 = (r', s2)"
  shows "r' = Responded (map_sum id snd (TrackController_incrementPlayCount s caller (ObjectId i)))
         \<and> (case TrackController_incrementPlayCount s caller (ObjectId i) of
               Inl e \<Rightarrow> s2 = s
             | Inr (s', n) \<Rightarrow> s2 = s')"
  using assms
  by (auto simp: play_step_def TrackController_incrementPlayCount_def
        split: option.splits sum.splits prod.splits)

section \<open>Track catalog\<close>


text \<open>
  C7, at a failing input. User 1 owns track 10 and sends the body
  \<open>{owner: 2, playCount: 1000}\<close>. Both keys are assigned and saved: the track now
  belongs to user 2 with a play count of 1000, and the next update by user 1 is refused.
\<close>

theorem update_assigns_owner:
  "\<exists>s'. TrackController_update test_db 1 10 [P_owner 2, P_playCount 1000]
           = Inr (s', (createTestTrack 10 1 True)\<lparr>playCount := 1000, track_owner := 2\<rparr>)
       \<and> MusicTrack_findById 10 (MusicTrack s')
           = Some ((createTestTrack 10 1 True)\<lparr>playCount := 1000, track_owner := 2\<rparr>)
       \<and> TrackController_update s' 1 10 []
           = Inl (AppError ''Not authorized to update this track'' 403)"
  by (simp add: TrackController_update_def Object_assign_def assigns_tags_def track_save_def
        track_validate_def track_validation_errors_def track_pre_save_def url_format_def
        MusicTrack_findById_def fixture_defs Let_def)

text \<open>
  C1, at a failing input. Playlists 20 and 21 hold track 10. Its owner deletes the track:
  the request succeeds, the track is gone, and both playlists still hold its id.
\<close>

theorem delete_leaves_playlist_references:
  "\<exists>s'. TrackController_delete test_db 1 10 = Inr s'
        \<and> MusicTrack_findById 10 (MusicTrack s') = None
        \<and> Playlist_findById 20 (Playlist s') = Some (createTestPlaylist 20 1 True [10])
        \<and> Playlist_findById 21 (Playlist s') = Some (createTestPlaylist 21 1 True [10])"
  by (simp add: TrackController_delete_def MusicTrack_findById_def Playlist_findById_def
        track_deleteOne_def fixture_defs)

text \<open>
  C9, at a failing input. With \<open>page=0\<close> the list answers the first page, and reports
  \<open>page: 1\<close>; with \<open>page=-1\<close> the request reaches the datastore, which rejects the
  negative skip. Neither is refused as a validation error.
\<close>

theorem getAll_page_not_validated:
  "TrackController_getAll text_search regex_i test_db None (Some 0) (Some 10) no_filters
     = Inr ([createTestTrack 10 1 True],
            \<lparr>page = 1, limit = 10, totalItems = 1, totalPages = 1\<rparr>)
   \<and> TrackController_getAll text_search regex_i test_db None (Some (- 1)) (Some 10) no_filters
     = Inl (MongoError ''Skip value must be non-negative'')"
  by (simp add: TrackController_getAll_def no_filters_def or_default_def track_query_def
        truthy_def skip_limit_def track_sort_def ceil_div_def fixture_defs)

section \<open>Play count\<close>

text \<open>
  C10, amended. Counting a play needs no authentication and checks no visibility: the
  route runs the handler whatever the \<open>Authorization\<close> header, and the handler answers
  the same for every caller. For a stored track that satisfies its schema and whose play
  count is below \<open>2^53\<close>, public or private and whoever owns it, the request succeeds,
  answers the count before the call plus one and stores it. It fails with 404 when the id
  is an ObjectId that no track has, and with a CastError when the id is no ObjectId.
\<close>

theorem incrementPlayCount_any_caller:
  "trackRoutes_play s authorization param = TrackController_incrementPlayCount s caller param
   \<and> TrackController_incrementPlayCount s caller (NotObjectId v)
       = Inl (CastError ''Cast to ObjectId failed'')
   \<and> (MusicTrack_findById i (MusicTrack s) = None \<longrightarrow>
        TrackController_incrementPlayCount s caller (ObjectId i)
          = Inl (AppError ''Track not found'' 404))
   \<and> (MusicTrack_findById i (MusicTrack s) = Some t \<and> track_validate t = Inr ()
        \<and> playCount t < 9007199254740992 \<longrightarrow>
      (\<exists>s'. TrackController_incrementPlayCount s caller (ObjectId i)
               = Inr (s', playCount t + 1)
          \<and> MusicTrack_findById i (MusicTrack s') = Some (t\<lparr>playCount := playCount t + 1\<rparr>)
          \<and> Playlist s' = Playlist s \<and> User s' = User s))"
proof (intro conjI impI)
  show "trackRoutes_play s authorization param
          = TrackController_incrementPlayCount s caller param"
    by (simp add: trackRoutes_play_def TrackController_incrementPlayCount_def)
next
  show "TrackController_incrementPlayCount s caller (NotObjectId v)
          = Inl (CastError ''Cast to ObjectId failed'')"
    by (simp add: TrackController_incrementPlayCount_def)
next
  assume "MusicTrack_findById i (MusicTrack s) = None"
  then show "TrackController_incrementPlayCount s caller (ObjectId i)
               = Inl (AppError ''Track not found'' 404)"
    by (simp add: TrackController_incrementPlayCount_def)
next
  assume a: "MusicTrack_findById i (MusicTrack s) = Some t \<and> track_validate t = Inr ()
               \<and> playCount t < 9007199254740992"
  let ?t' = "t\<lparr>playCount := playCount t + 1\<rparr>"
  let ?s' = "s\<lparr>MusicTrack := track_write ?t' (MusicTrack s)\<rparr>"
  from a have id: "track_id t = i" using MusicTrack_findById_id by blast
  from a have "0 \<le> playCount t"
    by (simp add: track_validate_iff track_validation_errors_nonneg)
  with a have n: "Number_plus_one (playCount t) = playCount t + 1"
    by (simp add: Number_plus_one_exact)
  from a id have stored: "MusicTrack_findById (track_id t) (MusicTrack s) \<noteq> None" by simp
  from a have "incrementPlayCount t (MusicTrack s) = Inr (?t', track_write ?t' (MusicTrack s))"
    using incrementPlayCount_valid[OF _ stored] n by simp
  with a have run: "TrackController_incrementPlayCount s caller (ObjectId i)
                      = Inr (?s', playCount t + 1)"
    by (simp add: TrackController_incrementPlayCount_def)
  from stored have "MusicTrack_findById (track_id ?t') (MusicTrack s) \<noteq> None" by simp
  then have "MusicTrack_findById (track_id ?t') (track_write ?t' (MusicTrack s)) = Some ?t'"
    by (rule track_write_find)
  with id have found: "MusicTrack_findById i (MusicTrack ?s') = Some ?t'" by simp
  from run found
  show "\<exists>s'. TrackController_incrementPlayCount s caller (ObjectId i)
               = Inr (s', playCount t + 1)
          \<and> MusicTrack_findById i (MusicTrack s') = Some ?t'
          \<and> Playlist s' = Playlist s \<and> User s' = User s"
    by (intro exI[of _ ?s']) simp
qed

text \<open>
  At the fixtures: track 11 is private and owned by user 1; an anonymous caller is refused
  the track itself and still raises its count from 0 to 1. No track has the id 99.
\<close>

theorem incrementPlayCount_any_caller_witness:
  "MusicTrack_findById 11 (MusicTrack test_db) = Some (createTestTrack 11 1 False)
   \<and> track_validate (createTestTrack 11 1 False) = Inr ()
   \<and> playCount (createTestTrack 11 1 False) < 9007199254740992
   \<and> TrackController_getOne test_db None 11
       = Inl (AppError ''Not authorized to access this track'' 403)
   \<and> (\<exists>s'. TrackController_incrementPlayCount test_db None (ObjectId 11) = Inr (s', 1))
   \<and> (\<exists>s'. trackRoutes_play test_db (Some ''Bearer anything'') (ObjectId 11) = Inr (s', 1))
   \<and> MusicTrack_findById 99 (MusicTrack test_db) = None
   \<and> TrackController_incrementPlayCount test_db None (ObjectId 99)
       = Inl (AppError ''Track not found'' 404)"
proof -
  let ?t = "createTestTrack 11 1 False"
  have f: "MusicTrack_findById 11 (MusicTrack test_db) = Some ?t"
    by (simp add: MusicTrack_findById_def fixture_defs)
  have n: "MusicTrack_findById 99 (MusicTrack test_db) = None"
    by (simp add: MusicTrack_findById_def fixture_defs)
  have np: "\<not> track_isPublic ?t" by (simp add: createTestTrack_def)
  have g: "TrackController_getOne test_db None 11
             = Inl (AppError ''Not authorized to access this track'' 403)"
    using f np by (rule getOne_private_refused) simp
  have p: "playCount ?t = 0" by (simp add: createTestTrack_def)
  note inst = incrementPlayCount_any_caller[where s = test_db and caller = None
      and authorization = "Some ''Bearer anything''" and param = "ObjectId 11" and v = "[]"]
  from inst[where i = 11 and t = ?t] f test_track_valid p
  have 1: "\<exists>s'. TrackController_incrementPlayCount test_db None (ObjectId 11) = Inr (s', 1)"
    by auto
  from inst[where i = 11 and t = ?t] 1
  have r: "\<exists>s'. trackRoutes_play test_db (Some ''Bearer anything'') (ObjectId 11) = Inr (s', 1)"
    by simp
  from inst[where i = 99 and t = ?t] n
  have 2: "TrackController_incrementPlayCount test_db None (ObjectId 99)
             = Inl (AppError ''Track not found'' 404)"
    by simp
  from f test_track_valid p g 1 r n 2 show ?thesis by simp
qed

text \<open>
  Where the claim as stated fails. User 1 sets the play count of track 10 to \<open>2^53\<close>;
  counting a play then succeeds, answers \<open>2^53\<close> again and leaves the datastore as it
  is. And a request whose id is no ObjectId fails with a CastError, which is not the 404
  of an absent track.
\<close>

theorem incrementPlayCount_counterexample:
  "TrackController_update test_db 1 10 [P_playCount 9007199254740992]
     = Inr (saturated_db, (createTestTrack 10 1 True)\<lparr>playCount := 9007199254740992\<rparr>)
   \<and> TrackController_incrementPlayCount saturated_db None (ObjectId 10)
     = Inr (saturated_db, 9007199254740992)
   \<and> TrackController_incrementPlayCount test_db None (NotObjectId ''abc'')
     = Inl (CastError ''Cast to ObjectId failed'')"
  by (simp add: TrackController_update_def Object_assign_def assigns_tags_def
        TrackController_incrementPlayCount_def incrementPlayCount_def Number_plus_one_def
        track_save_def track_validate_def track_validation_errors_def track_pre_save_def
        url_format_def MusicTrack_findById_def saturated_db_def fixture_defs Let_def)

text \<open>
  C5, at a failing input. Two play requests for track 10, whose count is 0. When both load
  the track before either saves, both answer 1 and the stored count is 1: one play is
  lost. When the second request starts after the first has saved, the count is 2.
\<close>

theorem concurrent_plays_lose_update:
  "(case run_schedule [0, 1, 0, 1] ([Pending 10, Pending 10], test_db) of
      (rs, s') \<Rightarrow> rs = [Responded (Inr 1), Responded (Inr 1)]
                 \<and> map_option playCount (MusicTrack_findById 10 (MusicTrack s')) = Some 1)
   \<and> (case run_schedule [0, 0, 1, 1] ([Pending 10, Pending 10], test_db) of
      (rs, s') \<Rightarrow> rs = [Responded (Inr 1), Responded (Inr 2)]
                 \<and> map_option playCount (MusicTrack_findById 10 (MusicTrack s')) = Some 2)"
  by (simp add: play_step_def incrementPlayCount_def Number_plus_one_def track_save_def
        track_validate_def track_validation_errors_def track_pre_save_def url_format_def
        MusicTrack_findById_def fixture_defs Let_def)

section \<open>Playlist collection\<close>




text \<open>
  C8, at a failing input. Playlist 20 of user 1 holds track 10 only. User 1 removes the
  id 99 from it: the request succeeds and answers the playlist, unchanged.
\<close>

theorem removeTrack_non_member_succeeds:
  "PlaylistController_removeTrack test_db 1 20 99
     = Inr (test_db, Some (createTestPlaylist 20 1 True [10]))"
  by (simp add: PlaylistController_removeTrack_def removeTrack_def playlist_save_def
        playlist_validate_def playlist_field_errors_def playlist_track_errors_def
        playlist_pre_save_def new_Set_single Playlist_findById_def
        MusicTrack_findById_def fixture_defs)

text \<open>
  C2, at two failing inputs. Playlist 22 is private and owned by user 1: user 2 toggles
  and follows it. Playlist 20 is owned by user 1: user 1 toggles and follows their own
  playlist, and the follower set changes.
\<close>

theorem toggleFollow_not_guarded:
  "(\<exists>s'. PlaylistController_toggleFollow test_db 2 22
            = Inr (s', \<lparr>isFollowing = True, followersCount = 1\<rparr>)
         \<and> map followers (Playlist s') = [[], [], [2]])
   \<and> (\<exists>s'. PlaylistController_toggleFollow test_db 1 20
            = Inr (s', \<lparr>isFollowing = True, followersCount = 1\<rparr>)
         \<and> map followers (Playlist s') = [[1], [], []])"
  by (simp add: PlaylistController_toggleFollow_def Playlist_findById_def
        MusicTrack_findById_def addFollower_def removeFollower_def playlist_save_def
        playlist_validate_def playlist_field_errors_def playlist_track_errors_def
        playlist_pre_save_def fixture_defs)

section \<open>Identity store\<close>

text \<open>
  C6, at a failing input. With \<open>strictQuery\<close> set, the string \<open>invalid-token\<close>, which
  no one was issued, is accepted, whatever the signing methods and the time: the answer is
  a fresh pair of tokens for the first user, and the datastore is as before, so the same
  string is accepted again. Without \<open>strictQuery\<close>, a token the method has issued to
  user 1 is refused.
\<close>

theorem refreshToken_not_matched:
  "AuthController_refreshToken True generateAuthToken generateRefreshToken now test_db
       (Some ''invalid-token'')
     = Inr (test_db,
            \<lparr>accessToken =
               generateAuthToken now (createTestUser 1 ''testuser'' ''test@example.com''),
             refreshToken =
               generateRefreshToken now (createTestUser 1 ''testuser'' ''test@example.com'')\<rparr>)
   \<and> AuthController_refreshToken False generateAuthToken generateRefreshToken now test_db
       (Some (generateRefreshToken issued (createTestUser 1 ''testuser'' ''test@example.com'')))
     = (if generateRefreshToken issued (createTestUser 1 ''testuser'' ''test@example.com'') = []
        then Inl (AppError ''Refresh token is required'' 400)
        else Inl (AppError ''Invalid refresh token'' 401))"
  by (simp add: AuthController_refreshToken_def User_findOne_refreshToken_def truthy_def
        test_db_def)

end
